theory Spec2Isabelle
  imports Complex_Main "HOL-Library.Multiset"
begin

section \<open>Pattern Analysis Engine (lib/analysis/patternAnalysis.ts)\<close>

text \<open>
  A shallow embedding of \<^verbatim>\<open>derive\<close>, \<^verbatim>\<open>computeBaselines\<close>, \<^verbatim>\<open>mineSegments\<close>,
  \<^verbatim>\<open>analyzeTrends\<close> and of \<^verbatim>\<open>generateInsights\<close> as far as the cards, the baseline and
  the review count go.

  Conventions of the embedding.
  \<^item> A finite JavaScript number is an exact rational (\<^typ>\<open>rat\<close>): the binary rounding of
    IEEE-754 doubles is not modelled, and the constants 0.15, 1.2, 0.05 and 0.12 are the
    fractions they denote. A \<^verbatim>\<open>Date\<close> is its millisecond time stamp.
  \<^item> Where the code can produce a value that is not a finite number (an average over
    outcome scores one of which is not a number, an array read out of range), the value
    has the type \<open>jsnum\<close>, whose \<open>NaN\<close> compares false with everything.
  \<^item> The enumeration types of \<^verbatim>\<open>lib/types\<close> are unions of string literals, compared with
    \<^verbatim>\<open>===\<close> and used as keys of lookup tables; they are strings here, so that values
    outside the enumerations are inputs of the model as they are of the code.
  \<^item> \<^verbatim>\<open>Math.round(x)\<close> is \<open>\<lfloor>x + 1/2\<rfloor>\<close>.
  \<^item> \<^verbatim>\<open>Array.prototype.sort\<close> is stable; it is modelled by a stable insertion sort that
    takes the comparator's verdict "not positive" (a NaN verdict counts as zero).
  \<^item> The records keep the fields the engine reads.
\<close>

subsection \<open>Numbers that may be NaN\<close>

datatype jsnum = NaN | Num rat

fun jadd :: "jsnum \<Rightarrow> jsnum \<Rightarrow> jsnum" where
  "jadd (Num a) (Num b) = Num (a + b)"
| "jadd _ _ = NaN"

fun jsub :: "jsnum \<Rightarrow> jsnum \<Rightarrow> jsnum" where
  "jsub (Num a) (Num b) = Num (a - b)"
| "jsub _ _ = NaN"

fun jabs :: "jsnum \<Rightarrow> jsnum" where
  "jabs (Num a) = Num \<bar>a\<bar>"
| "jabs NaN = NaN"

fun jscale :: "rat \<Rightarrow> jsnum \<Rightarrow> jsnum" where
  "jscale k (Num a) = Num (k * a)"
| "jscale k NaN = NaN"

text \<open>Comparisons with a NaN operand are false.\<close>

fun jge :: "jsnum \<Rightarrow> rat \<Rightarrow> bool" where
  "jge (Num a) c = (a \<ge> c)"
| "jge NaN c = False"

fun jgt :: "jsnum \<Rightarrow> rat \<Rightarrow> bool" where
  "jgt (Num a) c = (a > c)"
| "jgt NaN c = False"


text \<open>\<^verbatim>\<open>function round(n, digits = 2)\<close>, always called with two digits.\<close>

definition round2 :: "rat \<Rightarrow> rat" where
  "round2 x = of_int \<lfloor>x * 100 + 1 / 2\<rfloor> / 100"

fun jround2 :: "jsnum \<Rightarrow> jsnum" where
  "jround2 (Num a) = Num (round2 a)"
| "jround2 NaN = NaN"

text \<open>
  \<^verbatim>\<open>xs.reduce((s, x) => s + f(x), 0) / n\<close> for a positive \<open>n\<close>. When some \<open>f(x)\<close> is not a
  number the sum is a string that does not read as a number, and the quotient is NaN.
\<close>

fun jsum :: "jsnum list \<Rightarrow> jsnum" where
  "jsum [] = Num 0"
| "jsum (x # xs) = jadd x (jsum xs)"

definition jmean :: "jsnum list \<Rightarrow> jsnum" where
  "jmean xs = jscale (1 / of_nat (length xs)) (jsum xs)"

definition mean :: "rat list \<Rightarrow> rat" where
  "mean xs = sum_list xs / of_nat (length xs)"

subsection \<open>Sorting\<close>

fun insort_cmp :: "('a \<Rightarrow> 'a \<Rightarrow> bool) \<Rightarrow> 'a \<Rightarrow> 'a list \<Rightarrow> 'a list" where
  "insort_cmp le x [] = [x]"
| "insort_cmp le x (y # ys) = (if le x y then x # y # ys else y # insort_cmp le x ys)"

definition js_sort :: "('a \<Rightarrow> 'a \<Rightarrow> bool) \<Rightarrow> 'a list \<Rightarrow> 'a list" where
  "js_sort le xs = foldr (insort_cmp le) xs []"

subsection \<open>Input records (lib/types)\<close>

record Decision =
  id_opt :: "string option"
  confidence :: rat
  decision_type :: string
  importance :: string
  decision_speed :: string

record Review =
  decision_id :: string
  expectation_comparison :: string
  surprise_score :: rat
  would_repeat :: "string option"
  reviewed_at :: int

text \<open>\<^verbatim>\<open>String(d.id)\<close> of an optional identifier.\<close>

fun js_String :: "string option \<Rightarrow> string" where
  "js_String None = ''undefined''"
| "js_String (Some s) = s"

subsection \<open>Lookup tables and bands\<close>

definition OUTCOME_SCORE_MAP :: "(string \<times> rat) list" where
  "OUTCOME_SCORE_MAP =
     [(''much_worse'', -2), (''slightly_worse'', -1), (''as_expected'', 0),
      (''slightly_better'', 1), (''much_better'', 2)]"

text \<open>
  \<^verbatim>\<open>OUTCOME_SCORE_MAP\<close> is an object literal, so a key it does not own is looked up in
  \<^verbatim>\<open>Object.prototype\<close>, whose properties are functions and objects.
\<close>

definition Object_prototype :: "string list" where
  "Object_prototype =
     [''constructor'', ''__defineGetter__'', ''__defineSetter__'', ''hasOwnProperty'',
      ''__lookupGetter__'', ''__lookupSetter__'', ''isPrototypeOf'',
      ''propertyIsEnumerable'', ''toString'', ''valueOf'', ''__proto__'',
      ''toLocaleString'']"

datatype jsval = Undefined | Number rat | Inherited

definition get_property :: "(string \<times> rat) list \<Rightarrow> string \<Rightarrow> jsval" where
  "get_property obj k =
     (case map_of obj k of
        Some v \<Rightarrow> Number v
      | None \<Rightarrow> if k \<in> set Object_prototype then Inherited else Undefined)"

text \<open>
  \<^verbatim>\<open>OUTCOME_SCORE_MAP[key] ?? 0\<close>. An inherited function or object is not nullish, so it
  is kept; every arithmetic use of it gives NaN, which stands for it from here on.
\<close>

definition outcomeScoreOf :: "string \<Rightarrow> jsnum" where
  "outcomeScoreOf k =
     (case get_property OUTCOME_SCORE_MAP k of
        Undefined \<Rightarrow> Num 0
      | Number v \<Rightarrow> Num v
      | Inherited \<Rightarrow> NaN)"

definition confBand :: "rat \<Rightarrow> string" where
  "confBand conf =
     (if conf \<le> 39 then ''low''
      else if conf \<le> 59 then ''mid''
      else if conf \<le> 79 then ''high''
      else ''very_high'')"

definition confProbFromBand :: "string \<Rightarrow> rat" where
  "confProbFromBand b =
     (if b = ''low'' then 3 / 10
      else if b = ''mid'' then 1 / 2
      else if b = ''high'' then 7 / 10
      else 9 / 10)"

fun outcomeProbFromScore :: "jsnum \<Rightarrow> rat" where
  "outcomeProbFromScore (Num score) = (if score > 0 then 1 else if score = 0 then 1 / 2 else 0)"
| "outcomeProbFromScore NaN = 0"

subsection \<open>Derived records and cards\<close>

record DerivedDecision =
  decision :: Decision
  review :: Review
  outcomeScore :: jsnum
  confBandOf :: string
  confProb :: rat
  outcomeProb :: rat
  calibrationError :: rat
  reviewedAt :: int

datatype InsightStrength = weak | medium | strong

record InsightEvidence =
  ev_n :: nat
  ev_metric :: string
  ev_value :: jsnum
  ev_baseline :: "jsnum option"
  ev_lift :: "jsnum option"

text \<open>
  Titles and messages are template literals; they are kept as the sequence of their
  literal pieces and interpolated values.
\<close>

datatype piece = Lit string | Cnt nat | Val jsnum | Bullet

record InsightCard =
  card_id :: string
  title :: "piece list"
  message :: "piece list"
  tags :: "string list"
  strength :: InsightStrength
  evidence :: "InsightEvidence list"
  actionHint :: "string option"

record Baseline =
  reviewCount :: nat
  avgOutcomeScore :: jsnum
  avgSurprise :: rat
  avgCalibrationError :: rat

record Insights =
  cards :: "InsightCard list"
  baseline :: Baseline
  total_reviewCount :: nat
  minimumReviewsNeeded :: nat

subsection \<open>GATING_THRESHOLDS\<close>

definition baselineCard :: nat where "baselineCard = 3"
definition segments_gate :: nat where "segments_gate = 8"
definition segmentMinSamples :: nat where "segmentMinSamples = 5"
definition trends_gate :: nat where "trends_gate = 12"

subsection \<open>derive\<close>

text \<open>\<^verbatim>\<open>new Map(reviews.map(r => [r.decision_id, r]))\<close>: a later entry replaces an earlier one.\<close>

definition reviewMap :: "Review list \<Rightarrow> string \<Rightarrow> Review option" where
  "reviewMap reviews = map_of (rev (map (\<lambda>r. (decision_id r, r)) reviews))"

definition derive_one :: "Decision \<Rightarrow> Review \<Rightarrow> DerivedDecision" where
  "derive_one d r =
     (let score = outcomeScoreOf (expectation_comparison r);
          band = confBand (confidence d);
          cp = confProbFromBand band;
          op = outcomeProbFromScore score
      in \<lparr> decision = d, review = r, outcomeScore = score, confBandOf = band,
           confProb = cp, outcomeProb = op, calibrationError = \<bar>cp - op\<bar>,
           reviewedAt = reviewed_at r \<rparr>)"

fun derive_loop :: "(string \<Rightarrow> Review option) \<Rightarrow> Decision list \<Rightarrow> DerivedDecision list" where
  "derive_loop m [] = []"
| "derive_loop m (d # ds) =
     (case m (js_String (id_opt d)) of
        None \<Rightarrow> derive_loop m ds
      | Some r \<Rightarrow> derive_one d r # derive_loop m ds)"

definition derive :: "Decision list \<Rightarrow> Review list \<Rightarrow> DerivedDecision list" where
  "derive decisions reviews =
     js_sort (\<lambda>a b. reviewedAt a - reviewedAt b \<le> 0) (derive_loop (reviewMap reviews) decisions)"

subsection \<open>computeBaselines\<close>

definition computeBaselines :: "DerivedDecision list \<Rightarrow> Baseline" where
  "computeBaselines derived =
     (let n = length derived in
      if n = 0
      then \<lparr> reviewCount = 0, avgOutcomeScore = Num 0, avgSurprise = 0, avgCalibrationError = 0 \<rparr>
      else \<lparr> reviewCount = n,
             avgOutcomeScore = jround2 (jmean (map outcomeScore derived)),
             avgSurprise = round2 (mean (map (\<lambda>d. surprise_score (review d)) derived)),
             avgCalibrationError = round2 (mean (map calibrationError derived)) \<rparr>)"

subsection \<open>mineSegments\<close>

definition decisionTypes :: "string list" where
  "decisionTypes = [''personal'', ''work'', ''finance'', ''health'', ''other'']"

definition importances :: "string list" where
  "importances = [''low'', ''medium'', ''high'']"

definition speeds :: "string list" where
  "speeds = [''quick'', ''moderate'', ''slow'']"

definition confBands :: "string list" where
  "confBands = [''low'', ''mid'', ''high'', ''very_high'']"

text \<open>The candidates in the order in which the four nested iterations visit them.\<close>

definition segment_keys :: "(string \<times> string \<times> string \<times> string) list" where
  "segment_keys =
     concat (map (\<lambda>type. concat (map (\<lambda>imp. concat (map (\<lambda>spd.
       map (\<lambda>band. (type, imp, spd, band)) confBands) speeds)) importances)) decisionTypes)"

definition segment_of ::
  "string \<Rightarrow> string \<Rightarrow> string \<Rightarrow> string \<Rightarrow> DerivedDecision list \<Rightarrow> DerivedDecision list" where
  "segment_of type imp spd band derived =
     filter (\<lambda>d. decision_type (decision d) = type \<and> importance (decision d) = imp \<and>
                 decision_speed (decision d) = spd \<and> confBandOf d = band) derived"

definition seg_avgOutcome :: "DerivedDecision list \<Rightarrow> jsnum" where
  "seg_avgOutcome seg = jmean (map outcomeScore seg)"

definition seg_avgSurprise :: "DerivedDecision list \<Rightarrow> rat" where
  "seg_avgSurprise seg = mean (map (\<lambda>x. surprise_score (review x)) seg)"

definition seg_repeatRate :: "DerivedDecision list \<Rightarrow> rat" where
  "seg_repeatRate seg =
     mean (map (\<lambda>x. if would_repeat (review x) = Some ''yes'' then 1 else 0) seg)"

definition seg_avgCalError :: "DerivedDecision list \<Rightarrow> rat" where
  "seg_avgCalError seg = mean (map calibrationError seg)"

definition outcomeLift :: "DerivedDecision list \<Rightarrow> Baseline \<Rightarrow> jsnum" where
  "outcomeLift seg b =
     (if reviewCount b \<noteq> 0 then jsub (seg_avgOutcome seg) (avgOutcomeScore b) else Num 0)"

definition surpriseLift :: "DerivedDecision list \<Rightarrow> Baseline \<Rightarrow> rat" where
  "surpriseLift seg b = (if reviewCount b \<noteq> 0 then seg_avgSurprise seg - avgSurprise b else 0)"

definition calErrorLift :: "DerivedDecision list \<Rightarrow> Baseline \<Rightarrow> rat" where
  "calErrorLift seg b =
     (if reviewCount b \<noteq> 0 then seg_avgCalError seg - avgCalibrationError b else 0)"

definition interesting :: "DerivedDecision list \<Rightarrow> Baseline \<Rightarrow> bool" where
  "interesting seg b =
     (jge (jabs (outcomeLift seg b)) (1 / 2) \<or> \<bar>surpriseLift seg b\<bar> \<ge> 12 \<or>
      \<bar>calErrorLift seg b\<bar> \<ge> 15 / 100 \<or> seg_repeatRate seg < 1 / 2)"

definition strength_score :: "DerivedDecision list \<Rightarrow> Baseline \<Rightarrow> jsnum" where
  "strength_score seg b =
     jadd (jadd (jadd (jscale 2 (jabs (outcomeLift seg b))) (Num (\<bar>surpriseLift seg b\<bar> / 10)))
                (Num (\<bar>calErrorLift seg b\<bar> * 3)))
          (Num (if length seg \<ge> 6 then 1 else 0))"

definition segment_strength :: "DerivedDecision list \<Rightarrow> Baseline \<Rightarrow> InsightStrength" where
  "segment_strength seg b =
     (if jgt (strength_score seg b) 3 then strong
      else if jgt (strength_score seg b) (12 / 10) then medium
      else weak)"

definition segment_evidence :: "DerivedDecision list \<Rightarrow> Baseline \<Rightarrow> InsightEvidence list" where
  "segment_evidence seg b =
     [\<lparr> ev_n = length seg, ev_metric = ''avgOutcome'', ev_value = jround2 (seg_avgOutcome seg),
        ev_baseline = Some (avgOutcomeScore b), ev_lift = Some (jround2 (outcomeLift seg b)) \<rparr>,
      \<lparr> ev_n = length seg, ev_metric = ''avgSurprise'',
        ev_value = Num (round2 (seg_avgSurprise seg)),
        ev_baseline = Some (Num (avgSurprise b)),
        ev_lift = Some (Num (round2 (surpriseLift seg b))) \<rparr>,
      \<lparr> ev_n = length seg, ev_metric = ''avgCalibrationError'',
        ev_value = Num (round2 (seg_avgCalError seg)),
        ev_baseline = Some (Num (avgCalibrationError b)),
        ev_lift = Some (Num (round2 (calErrorLift seg b))) \<rparr>,
      \<lparr> ev_n = length seg, ev_metric = ''repeatRate'',
        ev_value = Num (round2 (seg_repeatRate seg * 100)),
        ev_baseline = None, ev_lift = None \<rparr>]"

definition toUpperCase_char :: "char \<Rightarrow> char" where
  "toUpperCase_char c =
     (if (97::nat) \<le> of_char c \<and> of_char c \<le> (122::nat)
      then char_of (of_char c - (32::nat)) else c)"

fun capitalize :: "string \<Rightarrow> string" where
  "capitalize [] = []"
| "capitalize (c # cs) = toUpperCase_char c # cs"

definition segment_id :: "string \<Rightarrow> string \<Rightarrow> string \<Rightarrow> string \<Rightarrow> string" where
  "segment_id type imp spd band = ''seg-'' @ type @ ''-'' @ imp @ ''-'' @ spd @ ''-'' @ band"

definition segment_tags :: "string \<Rightarrow> string \<Rightarrow> string \<Rightarrow> string \<Rightarrow> string list" where
  "segment_tags type imp spd band = [''segment'', type, imp, spd, band]"

text \<open>The body of the innermost loop: \<open>None\<close> where the source says \<^verbatim>\<open>continue\<close>.\<close>

definition segmentCard ::
  "DerivedDecision list \<Rightarrow> Baseline \<Rightarrow> string \<times> string \<times> string \<times> string \<Rightarrow> InsightCard option" where
  "segmentCard derived b key =
     (case key of (type, imp, spd, band) \<Rightarrow>
        let seg = segment_of type imp spd band derived; n = length seg in
        if n = 0 then None
        else if n < segmentMinSamples then None
        else if \<not> interesting seg b then None
        else Some
          \<lparr> card_id = segment_id type imp spd band,
            title = [Lit (capitalize type), Bullet, Lit imp, Bullet, Lit spd, Bullet, Lit band],
            message = [Lit ''In '', Cnt n, Lit '' '', Lit type, Lit '' decision'',
                       Lit (if n > 1 then ''s'' else []), Lit '' (importance: '', Lit imp,
                       Lit '', speed: '', Lit spd,
                       Lit ''), outcomes differ from your baseline.''],
            tags = segment_tags type imp spd band,
            strength = segment_strength seg b,
            evidence = segment_evidence seg b,
            actionHint = Some
              ''Notice the pattern and consider how you can test this in future decisions.'' \<rparr>)"

definition segment_candidates :: "DerivedDecision list \<Rightarrow> Baseline \<Rightarrow> InsightCard list" where
  "segment_candidates derived b = List.map_filter (segmentCard derived b) segment_keys"

text \<open>
  The ranking key of the final sort:
  \<^verbatim>\<open>evidence.reduce((s, e) => s + (typeof e.lift === 'number' ? Math.abs(e.lift) : 0), 0)\<close>.
\<close>

definition lift_sum :: "InsightCard \<Rightarrow> jsnum" where
  "lift_sum c = jsum (map (\<lambda>e. case ev_lift e of Some l \<Rightarrow> jabs l | None \<Rightarrow> Num 0) (evidence c))"

text \<open>
  The comparator returns \<^verbatim>\<open>scoreB - scoreA\<close>; a NaN verdict counts as zero.
\<close>

definition by_lift_desc :: "InsightCard \<Rightarrow> InsightCard \<Rightarrow> bool" where
  "by_lift_desc a b = (case jsub (lift_sum b) (lift_sum a) of Num v \<Rightarrow> v \<le> 0 | NaN \<Rightarrow> True)"

definition mineSegments :: "DerivedDecision list \<Rightarrow> Baseline \<Rightarrow> InsightCard list" where
  "mineSegments derived b = take 6 (js_sort by_lift_desc (segment_candidates derived b))"

subsection \<open>analyzeTrends\<close>

text \<open>
  \<^verbatim>\<open>xs.slice(-a, -b)\<close> and \<^verbatim>\<open>xs.slice(-a)\<close> for \<open>a > 0\<close>: a negative index \<open>-k\<close> denotes
  \<open>max (length xs - k) 0\<close>, which is what the subtraction of naturals computes.
\<close>

definition slice_from_end :: "'a list \<Rightarrow> nat \<Rightarrow> nat \<Rightarrow> 'a list" where
  "slice_from_end xs a b = take ((length xs - b) - (length xs - a)) (drop (length xs - a) xs)"

definition trend_card ::
  "string \<Rightarrow> string \<Rightarrow> piece list \<Rightarrow> string \<Rightarrow> InsightStrength \<Rightarrow> nat \<Rightarrow> string \<Rightarrow> jsnum \<Rightarrow> string
     \<Rightarrow> InsightCard" where
  "trend_card ident ttl msg tag str lastN metric delta hint =
     \<lparr> card_id = ident, title = [Lit ttl], message = msg, tags = [''trend'', tag],
       strength = str,
       evidence = [\<lparr> ev_n = lastN, ev_metric = metric, ev_value = delta,
                     ev_baseline = None, ev_lift = None \<rparr>],
       actionHint = Some hint \<rparr>"

definition analyzeTrends :: "DerivedDecision list \<Rightarrow> InsightCard list" where
  "analyzeTrends derived =
     (let n = length derived; window = (10::nat) in
      if n < 2 then []
      else let lastN = min window (n div 2) in
      if lastN < 1 then []
      else let tail = slice_from_end derived lastN 0;
               prev = slice_from_end derived (lastN * 2) lastN in
      if length prev = 0 then []
      else let
        outcomeDelta = jround2 (jsub (jmean (map outcomeScore tail)) (jmean (map outcomeScore prev)));
        surpriseDelta = round2 (mean (map (\<lambda>d. surprise_score (review d)) tail)
                                 - mean (map (\<lambda>d. surprise_score (review d)) prev));
        calErrorDelta = round2 (mean (map calibrationError tail) - mean (map calibrationError prev))
      in
        (if jge (jabs outcomeDelta) (1 / 2)
         then [trend_card ''trend-outcome'' ''Outcome Trend''
                 [Lit ''Your average outcome score changed by '', Val outcomeDelta,
                  Lit '' (last '', Cnt lastN, Lit '' vs previous '', Cnt lastN, Lit '').'']
                 ''outcome'' (if jgt (jabs outcomeDelta) 1 then strong else medium)
                 lastN ''outcomeDelta'' outcomeDelta
                 ''Watch whether this persists over the next window.'']
         else []) @
        (if \<bar>surpriseDelta\<bar> \<ge> 8
         then [trend_card ''trend-surprise'' ''Surprise Trend''
                 [Lit ''Your surprise score changed by '', Val (Num surpriseDelta),
                  Lit '' points (last '', Cnt lastN, Lit '' vs previous '', Cnt lastN, Lit '').'']
                 ''surprise'' (if \<bar>surpriseDelta\<bar> > 15 then strong else medium)
                 lastN ''surpriseDelta'' (Num surpriseDelta)
                 ''This suggests your mental model is shifting.'']
         else []) @
        (if \<bar>calErrorDelta\<bar> \<ge> 5 / 100
         then [trend_card ''trend-calibration'' ''Calibration Trend''
                 [Lit ''Your calibration error changed by '', Val (Num calErrorDelta),
                  Lit '' (last '', Cnt lastN, Lit '' vs previous '', Cnt lastN, Lit '').'']
                 ''calibration'' (if \<bar>calErrorDelta\<bar> > 12 / 100 then strong else medium)
                 lastN ''calErrorDelta'' (Num calErrorDelta)
                 ''If this improves, you are getting better at predicting outcomes.'']
         else []))"

subsection \<open>generateInsights\<close>

text \<open>Reading an array at an index: \<^verbatim>\<open>undefined\<close> out of range, which no arithmetic turns into a number.\<close>

definition js_nth :: "rat list \<Rightarrow> nat \<Rightarrow> jsnum" where
  "js_nth arr i = (if i < length arr then Num (arr ! i) else NaN)"

fun jround :: "jsnum \<Rightarrow> jsnum" where
  "jround (Num a) = Num (of_int \<lfloor>a + 1 / 2\<rfloor>)"
| "jround NaN = NaN"

definition sorted_confidences :: "DerivedDecision list \<Rightarrow> rat list" where
  "sorted_confidences derived =
     js_sort (\<lambda>a b. a - b \<le> 0) (map (\<lambda>d. confidence (decision d)) derived)"

definition medianConfidence :: "DerivedDecision list \<Rightarrow> jsnum" where
  "medianConfidence derived =
     (let arr = sorted_confidences derived; m = length arr div 2 in
      if length arr mod 2 = 1 then js_nth arr m
      else jround (jscale (1 / 2)
             (jadd (if m = 0 then NaN else js_nth arr (m - 1)) (js_nth arr m))))"

definition iqr :: "DerivedDecision list \<Rightarrow> jsnum" where
  "iqr derived =
     (let arr = sorted_confidences derived;
          q1 = js_nth arr ((length arr - 1) div 4);
          q3 = js_nth arr (((length arr - 1) * 3) div 4)
      in jsub q3 q1)"

definition confCard :: "DerivedDecision list \<Rightarrow> Baseline \<Rightarrow> InsightCard" where
  "confCard derived b =
     \<lparr> card_id = ''calibration-summary'',
       title = [Lit ''Confidence Calibration''],
       message = [Lit ''Median confidence '', Val (medianConfidence derived),
                  Lit ''%. Avg calibration error '', Val (Num (avgCalibrationError b)), Lit ''.''],
       tags = [''calibration''],
       strength = (if length derived \<ge> 8 then strong else medium),
       evidence =
         [\<lparr> ev_n = length derived, ev_metric = ''medianConfidence'',
            ev_value = medianConfidence derived, ev_baseline = None, ev_lift = None \<rparr>,
          \<lparr> ev_n = length derived, ev_metric = ''iqr'',
            ev_value = iqr derived, ev_baseline = None, ev_lift = None \<rparr>,
          \<lparr> ev_n = length derived, ev_metric = ''avgCalibrationError'',
            ev_value = Num (avgCalibrationError b), ev_baseline = None, ev_lift = None \<rparr>],
       actionHint = Some ''Observe which contexts show higher calibration error.'' \<rparr>"

text \<open>
  The result without the four legacy summaries (\<^verbatim>\<open>confidence\<close>, \<^verbatim>\<open>surprise\<close>,
  \<^verbatim>\<open>speed\<close>, \<^verbatim>\<open>repeat\<close>), which are computed after the cards and feed nothing back.
\<close>

definition generateInsights :: "Decision list \<Rightarrow> Review list \<Rightarrow> Insights" where
  "generateInsights decisions reviews =
     (let derived = derive decisions reviews;
          b = computeBaselines derived;
          n = length derived
      in \<lparr> cards =
             (if n \<ge> baselineCard \<and> length derived > 0 then [confCard derived b] else []) @
             (if n \<ge> segments_gate then mineSegments derived b else []) @
             (if n \<ge> trends_gate then analyzeTrends derived else []),
           baseline = b,
           total_reviewCount = n,
           minimumReviewsNeeded = baselineCard \<rparr>)"

section \<open>Reference notions and sample inputs\<close>

text \<open>Records with the fields the engine reads.\<close>

definition mkDecision :: "string \<Rightarrow> rat \<Rightarrow> string \<Rightarrow> string \<Rightarrow> string \<Rightarrow> Decision" where
  "mkDecision ident conf type imp spd =
     \<lparr> id_opt = Some ident, confidence = conf, decision_type = type, importance = imp,
       decision_speed = spd \<rparr>"

definition mkReview :: "string \<Rightarrow> string \<Rightarrow> rat \<Rightarrow> string \<Rightarrow> int \<Rightarrow> Review" where
  "mkReview ident cmp surprise rep t =
     \<lparr> decision_id = ident, expectation_comparison = cmp, surprise_score = surprise,
       would_repeat = Some rep, reviewed_at = t \<rparr>"

definition zero_baseline :: Baseline where
  "zero_baseline =
     \<lparr> reviewCount = 0, avgOutcomeScore = Num 0, avgSurprise = 0, avgCalibrationError = 0 \<rparr>"

text \<open>Four decisions, three of them reviewed.\<close>

definition small_decisions :: "Decision list" where
  "small_decisions =
     [mkDecision ''a'' 50 ''work'' ''high'' ''quick'',
      mkDecision ''b'' 70 ''personal'' ''low'' ''slow'',
      mkDecision ''c'' 90 ''finance'' ''medium'' ''moderate'',
      mkDecision ''d'' 20 ''health'' ''low'' ''quick'']"

definition small_reviews :: "Review list" where
  "small_reviews =
     [mkReview ''b'' ''as_expected'' 10 ''yes'' 2,
      mkReview ''a'' ''much_better'' 40 ''no'' 1,
      mkReview ''c'' ''slightly_worse'' 25 ''unsure'' 3]"



definition half_up_hundredth :: "rat \<Rightarrow> rat \<Rightarrow> bool" where
  "half_up_hundredth x r \<longleftrightarrow> r * 100 \<in> \<int> \<and> x - 1 / 200 < r \<and> r \<le> x + 1 / 200"













text \<open>
  Twelve reviewed decisions; the reviews of \<open>d6\<close> and \<open>d7\<close> carry the same time stamp.
  The two lists of decisions differ in the order of these two.
\<close>

definition tie_reviews :: "Review list" where
  "tie_reviews =
     map2 (\<lambda>i (s, t). mkReview i ''as_expected'' s ''yes'' t)
       [''d1'', ''d2'', ''d3'', ''d4'', ''d5'', ''d6'', ''d7'', ''d8'', ''d9'', ''d10'', ''d11'', ''d12'']
       [(0, 1), (0, 2), (0, 3), (0, 4), (0, 5), (0, 6), (30, 6), (6, 8), (6, 9), (6, 10),
        (6, 11), (6, 12)]"

definition tie_first :: "Decision list" where
  "tie_first = map (\<lambda>i. mkDecision i 50 ''work'' ''medium'' ''moderate'')
     [''d1'', ''d2'', ''d3'', ''d4'', ''d5'']"

definition tie_last :: "Decision list" where
  "tie_last = map (\<lambda>i. mkDecision i 50 ''work'' ''medium'' ''moderate'')
     [''d8'', ''d9'', ''d10'', ''d11'', ''d12'']"

definition tie_x :: Decision where
  "tie_x = mkDecision ''d6'' 50 ''work'' ''medium'' ''moderate''"

definition tie_y :: Decision where
  "tie_y = mkDecision ''d7'' 50 ''work'' ''medium'' ''moderate''"

definition tie_decisions_A :: "Decision list" where
  "tie_decisions_A = tie_first @ [tie_x, tie_y] @ tie_last"

definition tie_decisions_B :: "Decision list" where
  "tie_decisions_B = tie_first @ [tie_y, tie_x] @ tie_last"

text \<open>A review whose \<open>expectation_comparison\<close> is none of the five known values.\<close>

definition inherited_decision :: Decision where
  "inherited_decision = mkDecision ''x'' 50 ''work'' ''medium'' ''moderate''"

definition inherited_review :: Review where
  "inherited_review = mkReview ''x'' ''constructor'' 10 ''yes'' 1"

section \<open>Auxiliary facts\<close>

subsection \<open>Sorting\<close>

lemma length_insort_cmp: "length (insort_cmp le x xs) = Suc (length xs)"
  by (induction xs) auto

lemma length_js_sort: "length (js_sort le xs) = length xs"
  unfolding js_sort_def by (induction xs) (auto simp: length_insort_cmp)

lemma mset_insort_cmp: "mset (insort_cmp le x xs) = add_mset x (mset xs)"
  by (induction xs) auto

lemma mset_js_sort: "mset (js_sort le xs) = mset xs"
  unfolding js_sort_def by (induction xs) (auto simp: mset_insort_cmp)

lemma set_js_sort: "set (js_sort le xs) = set xs"
  using mset_js_sort[of le xs] by (metis set_mset_mset)

subsection \<open>The join\<close>

lemma reviewMap_None: "reviewMap rs k = None \<longleftrightarrow> k \<notin> decision_id ` set rs"
  unfolding reviewMap_def by (simp add: map_of_eq_None_iff image_image)

lemma length_derive_loop:
  "length (derive_loop m ds) = length (filter (\<lambda>d. m (js_String (id_opt d)) \<noteq> None) ds)"
  by (induction ds) (auto split: option.splits)

lemma length_derive:
  "length (derive ds rs) =
     length (filter (\<lambda>d. \<exists>r\<in>set rs. decision_id r = js_String (id_opt d)) ds)"
proof -
  have "reviewMap rs (js_String (id_opt d)) \<noteq> None \<longleftrightarrow>
          (\<exists>r\<in>set rs. decision_id r = js_String (id_opt d))" for d
    unfolding reviewMap_None by force
  then have "filter (\<lambda>d. reviewMap rs (js_String (id_opt d)) \<noteq> None) ds
      = filter (\<lambda>d. \<exists>r\<in>set rs. decision_id r = js_String (id_opt d)) ds"
    by (intro filter_cong) auto
  then show ?thesis
    unfolding derive_def length_js_sort length_derive_loop by simp
qed

lemma reviewCount_computeBaselines: "reviewCount (computeBaselines xs) = length xs"
  by (simp add: computeBaselines_def Let_def)

lemma baseline_generateInsights:
  "baseline (generateInsights ds rs) = computeBaselines (derive ds rs)"
  by (simp add: generateInsights_def Let_def)

lemma total_reviewCount_generateInsights:
  "total_reviewCount (generateInsights ds rs) = length (derive ds rs)"
  by (simp add: generateInsights_def Let_def)

lemma cards_generateInsights:
  "cards (generateInsights ds rs) =
     (if 3 \<le> length (derive ds rs)
      then [confCard (derive ds rs) (computeBaselines (derive ds rs))] else []) @
     (if 8 \<le> length (derive ds rs)
      then mineSegments (derive ds rs) (computeBaselines (derive ds rs)) else []) @
     (if 12 \<le> length (derive ds rs) then analyzeTrends (derive ds rs) else [])"
  by (simp add: generateInsights_def Let_def baselineCard_def segments_gate_def trends_gate_def)

subsection \<open>Rounding\<close>


lemma half_up_hundredth_unique:
  assumes "half_up_hundredth x r" shows "r = round2 x"
proof -
  from assms obtain k :: int where k: "r * 100 = of_int k"
    by (auto simp: half_up_hundredth_def Ints_def)
  from assms have "x - 1 / 200 < r" "r \<le> x + 1 / 200" by (auto simp: half_up_hundredth_def)
  then have "of_int k \<le> x * 100 + 1 / 2" "x * 100 + 1 / 2 < of_int k + 1"
    using k by (auto simp: field_simps)
  then have "\<lfloor>x * 100 + 1 / 2\<rfloor> = k" by (rule floor_unique)
  then show ?thesis using k by (simp add: round2_def)
qed

subsection \<open>Sortedness of the insertion sort\<close>




subsection \<open>Segments\<close>










subsection \<open>Sums with NaN\<close>



lemma jsum_Num: "jsum (map Num qs) = Num (sum_list qs)"
  by (induction qs) auto

lemma jmean_Num: "jmean (map Num qs) = Num (mean qs)"
  by (simp add: jmean_def mean_def jsum_Num)


lemma no_NaN_map_Num: "NaN \<notin> set xs \<Longrightarrow> \<exists>qs. xs = map Num qs"
proof (induction xs)
  case Nil
  then show ?case by simp
next
  case (Cons x xs)
  then obtain qs where "xs = map Num qs" by auto
  moreover from Cons.prems obtain q where "x = Num q" by (cases x) auto
  ultimately have "x # xs = map Num (q # qs)" by simp
  then show ?case by (rule exI)
qed

subsection \<open>Ranking keys of the segment cards\<close>







subsection \<open>Lifts against a rounded baseline\<close>




subsection \<open>Segments nobody would repeat\<close>




subsection \<open>The trend analyzer\<close>









subsection \<open>The join under permutation\<close>

lemma insort_cmp_key: "insort_cmp (\<lambda>a b. f a \<le> f b) x xs = insort_key f x xs"
  by (induction xs) auto

lemma js_sort_key: "js_sort (\<lambda>a b. f a \<le> f b) xs = sort_key f xs"
  unfolding js_sort_def by (induction xs) (simp_all add: insort_cmp_key)

lemma derive_sort_key:
  "derive ds rs = sort_key reviewedAt (derive_loop (reviewMap rs) ds)"
  by (simp add: derive_def js_sort_key)

lemma mset_derive_loop:
  "mset (derive_loop m ds) =
     image_mset (\<lambda>d. derive_one d (the (m (js_String (id_opt d)))))
       (filter_mset (\<lambda>d. m (js_String (id_opt d)) \<noteq> None) (mset ds))"
  by (induction ds) (auto split: option.splits)

lemma reviewMap_perm:
  assumes "mset rs' = mset rs" and "distinct (map decision_id rs)"
  shows "reviewMap rs' = reviewMap rs"
proof -
  let ?p = "\<lambda>xs. rev (map (\<lambda>r. (decision_id r, r)) xs)"
  have "mset (map decision_id rs') = mset (map decision_id rs)"
    using assms(1) by simp
  then have d': "distinct (map decision_id rs')"
    using assms(2) mset_eq_imp_distinct_iff by blast
  have 1: "distinct (map fst (?p rs))" using assms(2) by (simp add: rev_map[symmetric] comp_def)
  have 2: "distinct (map fst (?p rs'))" using d' by (simp add: rev_map[symmetric] comp_def)
  have "set rs' = set rs" using assms(1) by (rule mset_eq_setD)
  then have "set (?p rs') = set (?p rs)" by simp
  then have "map_of (?p rs') = map_of (?p rs)"
    using map_of_inject_set[OF 2 1] by blast
  then show ?thesis by (simp add: reviewMap_def)
qed

lemma derive_perm:
  assumes ds: "mset ds' = mset ds" and rs: "mset rs' = mset rs"
    and dist: "distinct (map decision_id rs)"
    and inj: "inj_on reviewedAt (set (derive ds rs))"
  shows "derive ds' rs' = derive ds rs"
proof -
  let ?m = "reviewMap rs"
  have m: "reviewMap rs' = ?m" by (rule reviewMap_perm[OF rs dist])
  have ms: "mset (derive_loop ?m ds') = mset (derive_loop ?m ds)"
    by (simp add: mset_derive_loop ds)
  have "set (derive_loop ?m ds') = set (derive_loop ?m ds)"
    using ms by (rule mset_eq_setD)
  also have "\<dots> = set (derive ds rs)" by (simp add: derive_sort_key)
  finally have i: "inj_on reviewedAt (set (derive_loop ?m ds'))" using inj by simp
  have "sort_key reviewedAt (derive_loop ?m ds') = sort_key reviewedAt (derive_loop ?m ds)"
  proof (rule sort_key_inj_key_eq[OF _ i])
    show "mset (derive_loop ?m ds') = mset (sort_key reviewedAt (derive_loop ?m ds))"
      using ms by simp
    show "sorted (map reviewedAt (sort_key reviewedAt (derive_loop ?m ds)))"
      by (rule sorted_sort_key)
  qed
  then show ?thesis by (simp add: derive_sort_key m)
qed

subsection \<open>Where the result is numeric\<close>

lemma outcomeScoreOf_own:
  "map_of OUTCOME_SCORE_MAP k = Some v \<Longrightarrow> outcomeScoreOf k = Num v"
  by (simp add: outcomeScoreOf_def get_property_def)

lemma outcomeScoreOf_fallback:
  "map_of OUTCOME_SCORE_MAP k = None \<Longrightarrow> k \<notin> set Object_prototype \<Longrightarrow> outcomeScoreOf k = Num 0"
  by (simp add: outcomeScoreOf_def get_property_def)

lemma outcomeScoreOf_inherited:
  "k \<in> set Object_prototype \<Longrightarrow> outcomeScoreOf k = NaN"
proof -
  assume k: "k \<in> set Object_prototype"
  have "set Object_prototype \<inter> fst ` set OUTCOME_SCORE_MAP = {}"
    by code_simp
  with k have "k \<notin> fst ` set OUTCOME_SCORE_MAP" by blast
  then have "map_of OUTCOME_SCORE_MAP k = None" by (simp add: map_of_eq_None_iff)
  with k show ?thesis by (simp add: outcomeScoreOf_def get_property_def)
qed

lemma outcomeScoreOf_numeric: "k \<notin> set Object_prototype \<Longrightarrow> outcomeScoreOf k \<noteq> NaN"
  by (cases "map_of OUTCOME_SCORE_MAP k") (simp_all add: outcomeScoreOf_own outcomeScoreOf_fallback)

lemma reviewMap_SomeD: "reviewMap rs k = Some r \<Longrightarrow> r \<in> set rs"
proof -
  assume "reviewMap rs k = Some r"
  then have "(k, r) \<in> set (rev (map (\<lambda>r. (decision_id r, r)) rs))"
    unfolding reviewMap_def by (rule map_of_SomeD)
  then show ?thesis by auto
qed

lemma set_derive_loop:
  "x \<in> set (derive_loop m ds) \<Longrightarrow> \<exists>d r. d \<in> set ds \<and> m (js_String (id_opt d)) = Some r \<and> x = derive_one d r"
  by (induction ds) (auto split: option.splits)

lemma derive_numeric:
  assumes "\<forall>r\<in>set rs. expectation_comparison r \<notin> set Object_prototype"
  shows "NaN \<notin> set (map outcomeScore (derive ds rs))"
proof
  assume "NaN \<in> set (map outcomeScore (derive ds rs))"
  then obtain x where x: "x \<in> set (derive ds rs)" "outcomeScore x = NaN" by auto
  from x(1) have "x \<in> set (derive_loop (reviewMap rs) ds)"
    by (simp add: derive_def set_js_sort)
  then obtain d r where r: "reviewMap rs (js_String (id_opt d)) = Some r" "x = derive_one d r"
    using set_derive_loop by blast
  from r(1) have "r \<in> set rs" by (rule reviewMap_SomeD)
  with assms have "outcomeScoreOf (expectation_comparison r) \<noteq> NaN"
    by (simp add: outcomeScoreOf_numeric)
  moreover have "outcomeScore x = outcomeScoreOf (expectation_comparison r)"
    by (simp add: r(2) derive_one_def Let_def)
  ultimately show False using x(2) by simp
qed

lemma baseline_numeric:
  assumes "\<forall>r\<in>set rs. expectation_comparison r \<notin> set Object_prototype"
  shows "avgOutcomeScore (baseline (generateInsights ds rs)) \<noteq> NaN"
proof (cases "derive ds rs = []")
  case True
  then show ?thesis by (simp add: baseline_generateInsights computeBaselines_def)
next
  case False
  from derive_numeric[OF assms] obtain qs where "map outcomeScore (derive ds rs) = map Num qs"
    using no_NaN_map_Num by blast
  then show ?thesis
    using False by (simp add: baseline_generateInsights computeBaselines_def Let_def jmean_Num)
qed

lemma medianConfidence_defined: "derived \<noteq> [] \<Longrightarrow> medianConfidence derived \<noteq> NaN"
proof -
  assume ne: "derived \<noteq> []"
  let ?arr = "sorted_confidences derived"
  have l: "length ?arr = length derived" by (simp add: sorted_confidences_def length_js_sort)
  then have pos: "0 < length ?arr" using ne by simp
  show ?thesis
  proof (cases "length ?arr mod 2 = 1")
    case True
    have "length ?arr div 2 < length ?arr" using pos by simp
    then show ?thesis using True by (simp add: medianConfidence_def Let_def js_nth_def)
  next
    case False
    then have ev: "length ?arr mod 2 = 0" by simp
    then have m: "length ?arr div 2 \<noteq> 0" using pos by presburger
    have a: "length ?arr div 2 < length ?arr" using pos by simp
    have b: "length ?arr div 2 - 1 < length ?arr" using pos by arith
    show ?thesis using False m a b by (simp add: medianConfidence_def Let_def js_nth_def)
  qed
qed

lemma iqr_defined: "derived \<noteq> [] \<Longrightarrow> iqr derived \<noteq> NaN"
proof -
  assume ne: "derived \<noteq> []"
  let ?arr = "sorted_confidences derived"
  have "length ?arr = length derived" by (simp add: sorted_confidences_def length_js_sort)
  then have pos: "0 < length ?arr" using ne by simp
  have a: "(length ?arr - 1) div 4 < length ?arr" using pos by arith
  have b: "((length ?arr - 1) * 3) div 4 < length ?arr" using pos by arith
  show ?thesis using a b by (simp add: iqr_def Let_def js_nth_def)
qed

section \<open>The claims\<close>

subsection \<open>C1\<close>



subsection \<open>C2\<close>




subsection \<open>C3\<close>

text \<open>
  C3. The baseline's review count is the number of input decisions that have a matching
  review (a review whose \<open>decision_id\<close> is the decision's identifier as a string); it never
  exceeds the number of decisions; and when it is 0 the baseline is the all-zero record.
\<close>

theorem C3_review_count:
  "reviewCount (baseline (generateInsights ds rs)) =
     length (filter (\<lambda>d. \<exists>r\<in>set rs. decision_id r = js_String (id_opt d)) ds)
   \<and> reviewCount (baseline (generateInsights ds rs)) \<le> length ds
   \<and> (reviewCount (baseline (generateInsights ds rs)) = 0 \<longrightarrow>
        baseline (generateInsights ds rs) = zero_baseline)"
proof -
  have a: "reviewCount (baseline (generateInsights ds rs)) =
     length (filter (\<lambda>d. \<exists>r\<in>set rs. decision_id r = js_String (id_opt d)) ds)"
    by (simp add: baseline_generateInsights reviewCount_computeBaselines length_derive)
  have b: "reviewCount (baseline (generateInsights ds rs)) \<le> length ds"
    unfolding a by (rule length_filter_le)
  have c: "reviewCount (baseline (generateInsights ds rs)) = 0 \<longrightarrow>
        baseline (generateInsights ds rs) = zero_baseline"
    by (simp add: baseline_generateInsights computeBaselines_def Let_def zero_baseline_def)
  from a b c show ?thesis by blast
qed

theorem C3_review_count_witness:
  "reviewCount (baseline (generateInsights small_decisions small_reviews)) = 3
   \<and> baseline (generateInsights [] []) = zero_baseline"
proof -
  have f: "length (filter (\<lambda>d. \<exists>r\<in>set small_reviews. decision_id r = js_String (id_opt d))
             small_decisions) = 3"
    by code_simp
  have z: "reviewCount (baseline (generateInsights [] [])) = 0"
    using C3_review_count [of "[]" "[]"] by simp
  show ?thesis
    using C3_review_count [of small_decisions small_reviews] C3_review_count [of "[]" "[]"] f z
    by simp
qed

subsection \<open>C4\<close>

text \<open>
  C4. With fewer than three derived pairs the card list is empty. The review count of
  the result is the number of derived pairs.
\<close>

theorem C4_no_cards_below_three:
  "total_reviewCount (generateInsights ds rs) = length (derive ds rs)
   \<and> (total_reviewCount (generateInsights ds rs) < 3 \<longrightarrow> cards (generateInsights ds rs) = [])"
  by (simp add: cards_generateInsights total_reviewCount_generateInsights)

theorem C4_no_cards_below_three_witness:
  "total_reviewCount (generateInsights (take 2 small_decisions) small_reviews) = 2
   \<and> cards (generateInsights (take 2 small_decisions) small_reviews) = []"
proof -
  have h: "length (derive (take 2 small_decisions) small_reviews) = 2"
    by code_simp
  show ?thesis
    using C4_no_cards_below_three [of "take 2 small_decisions" small_reviews] h by simp
qed

subsection \<open>C5\<close>

text \<open>
  C5. An \<open>expectation_comparison\<close> outside the five known values is meant to fall back to
  the outcome score 0. The fallback \<^verbatim>\<open>?? 0\<close> only replaces \<^verbatim>\<open>undefined\<close>: for a value
  that names a property inherited from \<^verbatim>\<open>Object.prototype\<close>, here \<^verbatim>\<open>constructor\<close>, the
  lookup gives a function, the outcome score of the derived pair is not a number, and
  the baseline's average outcome score is NaN. (For every other value the score is a
  number, see \<open>outcomeScoreOf_fallback\<close> and \<open>baseline_numeric\<close>.)
\<close>

theorem C5_inherited_key_not_coerced:
  "outcomeScoreOf (expectation_comparison inherited_review) = NaN
   \<and> map outcomeScore (derive [inherited_decision] [inherited_review]) = [NaN]
   \<and> baseline (generateInsights [inherited_decision] [inherited_review])
       = \<lparr> reviewCount = 1, avgOutcomeScore = NaN, avgSurprise = 10, avgCalibrationError = 1 / 2 \<rparr>"
  by code_simp

subsection \<open>C6\<close>

text \<open>
  C6, as stated: permuting the decisions and the reviews changes neither the baseline nor
  the cards. Two of twelve reviews carry the same time stamp; the sort of the derived
  pairs is stable, so their decisions keep the order of the input, and the two orders put
  a different pair into the later trend window: one order gives a surprise trend card,
  the other none.
\<close>

theorem C6_timestamp_tie_counterexample:
  "mset tie_decisions_B = mset tie_decisions_A
   \<and> map card_id (cards (generateInsights tie_decisions_A tie_reviews))
       = [''calibration-summary'', ''trend-surprise'']
   \<and> map card_id (cards (generateInsights tie_decisions_B tie_reviews))
       = [''calibration-summary'']"
proof -
  have p: "mset tie_decisions_B = mset tie_decisions_A"
    by (simp add: tie_decisions_A_def tie_decisions_B_def)
  have a: "map card_id (cards (generateInsights tie_decisions_A tie_reviews))
       = [''calibration-summary'', ''trend-surprise'']"
    by code_simp
  have b: "map card_id (cards (generateInsights tie_decisions_B tie_reviews))
       = [''calibration-summary'']"
    by code_simp
  from p a b show ?thesis by blast
qed

text \<open>
  C6, amended: when no two reviews share a \<open>decision_id\<close> and no two different derived
  pairs share a \<open>reviewed_at\<close> time stamp, permuting the decisions and the reviews leaves
  the whole result, baseline and cards in their order, unchanged.
\<close>

theorem C6_permutation_without_ties:
  assumes "mset ds' = mset ds" and "mset rs' = mset rs"
    and "distinct (map decision_id rs)"
    and "inj_on reviewedAt (set (derive ds rs))"
  shows "generateInsights ds' rs' = generateInsights ds rs"
  unfolding generateInsights_def derive_perm[OF assms] ..

theorem C6_permutation_without_ties_witness:
  "generateInsights (rev small_decisions) (rev small_reviews)
     = generateInsights small_decisions small_reviews"
proof -
  have d: "distinct (map decision_id small_reviews)"
    by code_simp
  have "distinct (map reviewedAt (derive small_decisions small_reviews))"
    by code_simp
  then have i: "inj_on reviewedAt (set (derive small_decisions small_reviews))"
    by (simp add: distinct_map)
  show ?thesis
    by (rule C6_permutation_without_ties[OF _ _ d i]) simp_all
qed

subsection \<open>C7\<close>




subsection \<open>C8\<close>



subsection \<open>C9\<close>




subsection \<open>C10\<close>



end
